theory Spec2Isabelle
  imports Main
begin

section \<open>Python strings\<close>

text \<open>
  A Python \<open>str\<close> is a sequence of Unicode code points; it is modelled as a list of
  natural numbers. \<open>str_of\<close> embeds an ASCII literal. \<open>isspace\<close> is the set of code
  points that \<open>str.strip()\<close> removes when called without argument: the ASCII
  whitespace 0x09-0x0D, 0x1C-0x1F, 0x20 and the Unicode whitespace 0x85, 0xA0, 0x1680,
  0x2000-0x200A, 0x2028, 0x2029, 0x202F, 0x205F, 0x3000.
\<close>

type_synonym str = "nat list"

definition str_of :: "string \<Rightarrow> str" where
  "str_of cs = map of_char cs"

definition isspace :: "nat \<Rightarrow> bool" where
  "isspace c \<longleftrightarrow>
     (9 \<le> c \<and> c \<le> 13) \<or> (28 \<le> c \<and> c \<le> 32) \<or> c = 133 \<or> c = 160 \<or> c = 5760 \<or>
     (8192 \<le> c \<and> c \<le> 8202) \<or> c = 8232 \<or> c = 8233 \<or> c = 8239 \<or> c = 8287 \<or> c = 12288"

definition strip :: "str \<Rightarrow> str" where
  "strip s = rev (dropWhile isspace (rev (dropWhile isspace s)))"

text \<open>
  A string is trimmed when it neither starts nor ends with a whitespace code point.
\<close>

definition trimmed :: "str \<Rightarrow> bool" where
  "trimmed s \<longleftrightarrow> (case s of [] \<Rightarrow> True | c # cs \<Rightarrow> \<not> isspace c \<and> \<not> isspace (last s))"

section \<open>Exceptions\<close>

text \<open>
  Every exception the program can raise is a value. \<open>OSError\<close> is what \<open>open\<close> raises
  (itself or a subclass), \<open>KeyError\<close> what \<open>row[key]\<close> raises on a missing key,
  \<open>AttributeError\<close> what \<open>None.strip()\<close> raises, \<open>UnicodeDecodeError\<close> what the
  strict \<open>utf-8-sig\<close> decoding of the opened file raises on bytes that are not UTF-8,
  \<open>csv_Error\<close> the \<open>csv.Error\<close> the reader raises (a field longer than the field
  limit of 131072 characters), \<open>RequestException\<close> what
  \<open>requests.get\<close> or \<open>raise_for_status\<close> raise, \<open>BadZipFile\<close> what
  \<open>zipfile.ZipFile\<close> raises on a file that is not an archive, and
  \<open>FileNotFoundError\<close> carries the message of the two explicit \<open>raise\<close> statements
  of \<open>download_database_file\<close>. In Python \<open>FileNotFoundError\<close> is a subclass of
  \<open>OSError\<close>; here \<open>OSError\<close> stands only for a failure of \<open>open\<close>.
\<close>

datatype error =
    OSError
  | KeyError str
  | AttributeError
  | UnicodeDecodeError
  | csv_Error
  | RequestException
  | BadZipFile
  | FileNotFoundError str

definition andthen :: "error + 'a \<Rightarrow> ('a \<Rightarrow> error + 'b) \<Rightarrow> error + 'b" where
  "andthen x f = (case x of Inl e \<Rightarrow> Inl e | Inr v \<Rightarrow> f v)"

section \<open>The csv.DictReader\<close>

text \<open>
  A source file is given by what \<open>open\<close> and \<open>csv.reader\<close> make of it: it cannot
  be opened; or it is read to its end and is the list of rows the reader yields, each a
  list of fields (a blank line is the empty row); or the reader yields some rows and then
  raises, because the next bytes do not decode or the next field exceeds the field limit.
  Decoding and tokenising themselves are the library's work. The loaders iterate the
  reader lazily, so the rows yielded before the reader raises are processed first.

  \<open>csv.DictReader\<close> takes the first row as \<open>fieldnames\<close>, skips every later row equal
  to \<open>[]\<close> and turns each other row into \<open>dict(zip(fieldnames, row))\<close>, then sets the
  keys \<open>fieldnames[len(row):]\<close> to \<open>None\<close> when the row is short. A value of a row
  dictionary is therefore a \<open>cell\<close>: a string or Python's \<open>None\<close>. The fields of a long
  row beyond the header go under the key \<open>None\<close>, which no lookup of the program uses.
\<close>

datatype read_error = Undecodable | FieldTooLarge

fun raised :: "read_error \<Rightarrow> error" where
  "raised Undecodable = UnicodeDecodeError"
| "raised FieldTooLarge = csv_Error"

datatype source =
    CannotOpen
  | Contents "str list list"
  | Raises "str list list" read_error

type_synonym cell = "str option"

type_synonym row_dict = "str \<rightharpoonup> cell"

definition setitem :: "('k \<rightharpoonup> 'v) \<Rightarrow> 'k \<times> 'v \<Rightarrow> ('k \<rightharpoonup> 'v)" where
  "setitem d kv = d(fst kv \<mapsto> snd kv)"

definition dict_row :: "str list \<Rightarrow> str list \<Rightarrow> row_dict" where
  "dict_row fieldnames row =
     foldl setitem
       (foldl setitem Map.empty (zip fieldnames (map Some row)))
       (map (\<lambda>key. (key, None)) (drop (length row) fieldnames))"

fun DictReader :: "str list list \<Rightarrow> row_dict list" where
  "DictReader [] = []"
| "DictReader (fieldnames # rows) = map (dict_row fieldnames) (filter (\<lambda>row. row \<noteq> []) rows)"

definition getitem :: "row_dict \<Rightarrow> str \<Rightarrow> error + cell" where
  "getitem row key = (case row key of None \<Rightarrow> Inl (KeyError key) | Some v \<Rightarrow> Inr v)"

definition cell_strip :: "cell \<Rightarrow> error + str" where
  "cell_strip v = (case v of None \<Rightarrow> Inl AttributeError | Some s \<Rightarrow> Inr (strip s))"

section \<open>process_aircraft_reference_file\<close>

record entry =
  manufacturer :: str
  model :: str

text \<open>
  The key of the reference dictionary is \<open>row["CODE"]\<close> as it is, so it is a cell: a
  short row whose CODE column is missing stores its entry under \<open>None\<close>.
\<close>

type_synonym reference = "cell \<rightharpoonup> entry"

definition reference_row :: "reference \<Rightarrow> row_dict \<Rightarrow> error + reference" where
  "reference_row aircraft_reference row =
     andthen (getitem row (str_of ''CODE'')) (\<lambda>code.
     andthen (getitem row (str_of ''MFR'')) (\<lambda>manufacturer.
     andthen (getitem row (str_of ''MODEL'')) (\<lambda>model.
     andthen (cell_strip manufacturer) (\<lambda>m.
     andthen (cell_strip model) (\<lambda>mo.
       Inr (aircraft_reference(code \<mapsto> \<lparr>manufacturer = m, model = mo\<rparr>)))))))"

fun reference_loop :: "reference \<Rightarrow> row_dict list \<Rightarrow> error + reference" where
  "reference_loop aircraft_reference [] = Inr aircraft_reference"
| "reference_loop aircraft_reference (row # rows) =
     andthen (reference_row aircraft_reference row) (\<lambda>r. reference_loop r rows)"

definition process_aircraft_reference_file :: "source \<Rightarrow> error + reference" where
  "process_aircraft_reference_file f =
     (case f of
        CannotOpen \<Rightarrow> Inl OSError
      | Contents rows \<Rightarrow> reference_loop Map.empty (DictReader rows)
      | Raises rows x \<Rightarrow>
          andthen (reference_loop Map.empty (DictReader rows))
            (\<lambda>aircraft_reference. Inl (raised x)))"

section \<open>process_aircraft_registration_file\<close>

definition TYPE_REGISTRATION_MAP :: "(str \<times> str) list" where
  "TYPE_REGISTRATION_MAP =
     [(str_of ''1'', str_of ''Individual''),
      (str_of ''2'', str_of ''Partnership''),
      (str_of ''3'', str_of ''Corporation''),
      (str_of ''4'', str_of ''Co-Owned''),
      (str_of ''5'', str_of ''Government''),
      (str_of ''7'', str_of ''LLC''),
      (str_of ''8'', str_of ''Non Citizen Corporation''),
      (str_of ''9'', str_of ''Non Citizen Co-Owned'')]"

text \<open>
  \<open>TYPE_REGISTRATION_MAP.get(registrant_type_code) or "Unknown"\<close>: the code is looked
  up as it is (it may be \<open>None\<close>), and a result that is \<open>None\<close> or empty gives
  \<open>"Unknown"\<close>.
\<close>

definition registrant_type_of :: "cell \<Rightarrow> str" where
  "registrant_type_of registrant_type_code =
     (case (case registrant_type_code of
              None \<Rightarrow> None
            | Some c \<Rightarrow> map_of TYPE_REGISTRATION_MAP c) of
        None \<Rightarrow> str_of ''Unknown''
      | Some v \<Rightarrow> if v = [] then str_of ''Unknown'' else v)"

record registration =
  tail_number :: str
  aircraft_reference_code :: str
  year :: str
  owner_name :: str
  city :: str
  state :: str
  mode_s_hex :: str
  registrant_type :: str

definition registration_row :: "row_dict \<Rightarrow> error + registration" where
  "registration_row row =
     andthen (getitem row (str_of ''N-NUMBER'')) (\<lambda>tail_number.
     andthen (getitem row (str_of ''MFR MDL CODE'')) (\<lambda>aircraft_reference_code.
     andthen (getitem row (str_of ''YEAR MFR'')) (\<lambda>year.
     andthen (getitem row (str_of ''NAME'')) (\<lambda>owner_name.
     andthen (getitem row (str_of ''CITY'')) (\<lambda>city.
     andthen (getitem row (str_of ''STATE'')) (\<lambda>state.
     andthen (getitem row (str_of ''MODE S CODE HEX'')) (\<lambda>mode_s_hex.
     andthen (getitem row (str_of ''TYPE REGISTRANT'')) (\<lambda>registrant_type_code.
     andthen (cell_strip tail_number) (\<lambda>t.
     andthen (cell_strip aircraft_reference_code) (\<lambda>a.
     andthen (cell_strip year) (\<lambda>y.
     andthen (cell_strip owner_name) (\<lambda>n.
     andthen (cell_strip city) (\<lambda>c.
     andthen (cell_strip state) (\<lambda>s.
     andthen (cell_strip mode_s_hex) (\<lambda>h.
       Inr \<lparr>tail_number = t, aircraft_reference_code = a, year = y, owner_name = n,
            city = c, state = s, mode_s_hex = h,
            registrant_type = registrant_type_of registrant_type_code\<rparr>)))))))))))))))"

fun registration_loop :: "registration list \<Rightarrow> row_dict list \<Rightarrow> error + registration list" where
  "registration_loop aircraft_registrations [] = Inr aircraft_registrations"
| "registration_loop aircraft_registrations (row # rows) =
     andthen (registration_row row)
       (\<lambda>registration_data. registration_loop (aircraft_registrations @ [registration_data]) rows)"

definition process_aircraft_registration_file :: "source \<Rightarrow> error + registration list" where
  "process_aircraft_registration_file f =
     (case f of
        CannotOpen \<Rightarrow> Inl OSError
      | Contents rows \<Rightarrow> registration_loop [] (DictReader rows)
      | Raises rows x \<Rightarrow>
          andthen (registration_loop [] (DictReader rows))
            (\<lambda>aircraft_registrations. Inl (raised x)))"

section \<open>create_emcomm_tools_file\<close>

text \<open>
  The \<open>csv.writer\<close> of the program has the excel dialect with delimiter \<open>|\<close>: a field
  is quoted when it holds the delimiter, a double quote, a carriage return or a line
  feed, a double quote inside is doubled, fields are joined by \<open>|\<close> and the record ends
  with CR LF; a record of one empty field is written as two double quotes. The output
  file is the list of records written to it, in order.
\<close>

definition special :: "nat \<Rightarrow> bool" where
  "special c \<longleftrightarrow> c = 124 \<or> c = 34 \<or> c = 10 \<or> c = 13"

definition csv_field :: "str \<Rightarrow> str" where
  "csv_field s =
     (if list_ex special s
      then [34] @ concat (map (\<lambda>c. if c = 34 then [34, 34] else [c]) s) @ [34]
      else s)"

fun join :: "nat \<Rightarrow> str list \<Rightarrow> str" where
  "join d [] = []"
| "join d [x] = x"
| "join d (x # y # xs) = x @ [d] @ join d (y # xs)"

definition csv_writerow :: "str list \<Rightarrow> str" where
  "csv_writerow vs =
     (if vs = [[]] then [34, 34, 13, 10]
      else join 124 (map csv_field vs) @ [13, 10])"

definition fieldnames :: "str list" where
  "fieldnames =
     [str_of ''tail_number'', str_of ''make'', str_of ''model'', str_of ''year'',
      str_of ''owner_name'', str_of ''city'', str_of ''state'', str_of ''mode_s_hex'',
      str_of ''registrant_type'']"

text \<open>
  The body of the loop: the reference code is popped from the record and looked up in
  the reference dictionary, \<open>make\<close> and \<open>model\<close> are added, and
  \<open>DictWriter.writerow\<close> hands the values to the writer in the order of \<open>fieldnames\<close>.
  An entry of the dictionary is a dictionary of two keys, so it is always true in
  \<open>if aircraft_reference_data\<close>.
\<close>

definition output_fields :: "reference \<Rightarrow> registration \<Rightarrow> str list" where
  "output_fields aircraft_reference aircraft_registration =
     (let aircraft_reference_data =
            aircraft_reference (Some (aircraft_reference_code aircraft_registration));
          make = (case aircraft_reference_data of
                    Some e \<Rightarrow> manufacturer e | None \<Rightarrow> str_of ''Unknown'');
          model = (case aircraft_reference_data of
                     Some e \<Rightarrow> entry.model e | None \<Rightarrow> str_of ''Unknown'')
      in [tail_number aircraft_registration, make, model, year aircraft_registration,
          owner_name aircraft_registration, city aircraft_registration,
          state aircraft_registration, mode_s_hex aircraft_registration,
          registrant_type aircraft_registration])"

fun write_loop :: "reference \<Rightarrow> registration list \<Rightarrow> str list \<Rightarrow> str list" where
  "write_loop aircraft_reference [] output_file = output_file"
| "write_loop aircraft_reference (aircraft_registration # rest) output_file =
     write_loop aircraft_reference rest
       (output_file @ [csv_writerow (output_fields aircraft_reference aircraft_registration)])"

definition create_emcomm_tools_file ::
  "registration list \<Rightarrow> reference \<Rightarrow> str list \<Rightarrow> str list" where
  "create_emcomm_tools_file aircraft_registrations aircraft_reference output_file =
     write_loop aircraft_reference aircraft_registrations
       (output_file @ [csv_writerow fieldnames])"

section \<open>download_database_file and main\<close>

text \<open>
  The remote side is given by what the request and \<open>zipfile\<close> make of it: the
  request fails, or its body is not an archive, or it is an archive with a name list
  and, for each name, the extracted member as a source file.
\<close>

datatype archive = NotAnArchive | Archive "str list" "str \<Rightarrow> source"

datatype response = Failed | Body archive

definition download_database_file :: "response \<Rightarrow> error + reference \<times> registration list" where
  "download_database_file response =
     (case response of
        Failed \<Rightarrow> Inl RequestException
      | Body NotAnArchive \<Rightarrow> Inl BadZipFile
      | Body (Archive file_list extract) \<Rightarrow>
          if str_of ''MASTER.txt'' \<notin> set file_list
          then Inl (FileNotFoundError (str_of ''MASTER.txt file not found in database zip file''))
          else if str_of ''ACFTREF.txt'' \<notin> set file_list
          then Inl (FileNotFoundError (str_of ''ACFTREF.txt file not found in database zip file''))
          else
            andthen (process_aircraft_reference_file (extract (str_of ''ACFTREF.txt'')))
              (\<lambda>aircraft_reference.
            andthen (process_aircraft_registration_file (extract (str_of ''MASTER.txt'')))
              (\<lambda>aircraft_registrations.
                Inr (aircraft_reference, aircraft_registrations))))"

text \<open>
  \<open>main\<close> returns the records written to the output, or the exception that ended the
  run before anything was written.
\<close>

definition main :: "response \<Rightarrow> source option \<Rightarrow> source option \<Rightarrow> error + str list" where
  "main database registration_file reference_file =
     andthen
       (case (registration_file, reference_file) of
          (Some registration, Some reference) \<Rightarrow>
            andthen (process_aircraft_reference_file reference) (\<lambda>aircraft_reference.
            andthen (process_aircraft_registration_file registration) (\<lambda>aircraft_registrations.
              Inr (aircraft_reference, aircraft_registrations)))
        | _ \<Rightarrow> download_database_file database)
       (\<lambda>(aircraft_reference, aircraft_registrations).
          Inr (create_emcomm_tools_file aircraft_registrations aircraft_reference []))"

section \<open>Columns and example tables\<close>

text \<open>
  \<open>MASTER_header\<close> and \<open>ACFTREF_header\<close> are the columns the registration loader and
  the reference loader read with \<open>row[...]\<close>; \<open>MASTER_stripped\<close> and
  \<open>ACFTREF_stripped\<close> are those whose values they call \<open>strip\<close> on. The tables and
  records after them are the inputs the theorems are evaluated on: the rows of the FAA
  tables restricted to these columns, some with padding, blank fields or short rows.
\<close>

definition MASTER_header :: "str list" where
  "MASTER_header =
     [str_of ''N-NUMBER'', str_of ''MFR MDL CODE'', str_of ''YEAR MFR'', str_of ''NAME'',
      str_of ''CITY'', str_of ''STATE'', str_of ''MODE S CODE HEX'', str_of ''TYPE REGISTRANT'']"

definition ACFTREF_header :: "str list" where
  "ACFTREF_header = [str_of ''CODE'', str_of ''MFR'', str_of ''MODEL'']"

definition MASTER_stripped :: "str list" where
  "MASTER_stripped =
     [str_of ''N-NUMBER'', str_of ''MFR MDL CODE'', str_of ''YEAR MFR'', str_of ''NAME'',
      str_of ''CITY'', str_of ''STATE'', str_of ''MODE S CODE HEX'']"


definition MASTER_example :: "str list list" where
  "MASTER_example =
     [MASTER_header,
      [str_of ''N12345 '', str_of ''1234567A'', str_of ''2005'', str_of ''Jane Doe  '',
       str_of ''Austin'', str_of ''TX'', str_of ''A12345'', str_of ''1'']]"

definition ACFTREF_example :: "str list list" where
  "ACFTREF_example =
     [ACFTREF_header,
      [str_of ''1234567A'', str_of ''PIPER '', str_of ''PA-28''],
      [str_of ''1234567A'', str_of ''CESSNA   '', str_of '' 172S '']]"

definition Jane_Doe :: registration where
  "Jane_Doe =
     \<lparr>tail_number = str_of ''N12345'', aircraft_reference_code = str_of ''1234567A'',
      year = str_of ''2005'', owner_name = str_of ''Jane Doe'', city = str_of ''Austin'',
      state = str_of ''TX'', mode_s_hex = str_of ''A12345'',
      registrant_type = str_of ''Individual''\<rparr>"

definition CESSNA_reference :: reference where
  "CESSNA_reference =
     [Some (str_of ''1234567A'') \<mapsto> \<lparr>manufacturer = str_of ''CESSNA'', model = str_of ''172S''\<rparr>]"

definition No_Code :: registration where
  "No_Code =
     \<lparr>tail_number = str_of ''N2'', aircraft_reference_code = [],
      year = [], owner_name = str_of ''A|B'', city = [],
      state = [], mode_s_hex = [], registrant_type = str_of ''Unknown''\<rparr>"

definition example_member :: "str \<Rightarrow> source" where
  "example_member name =
     (if name = str_of ''MASTER.txt'' then Contents MASTER_example
      else if name = str_of ''ACFTREF.txt'' then Contents ACFTREF_example
      else Contents [])"

definition MASTER_padded :: "str list list" where
  "MASTER_padded =
     [MASTER_header,
      [str_of '' N12345'', str_of ''1234567A '', str_of ''2005'', str_of ''Jane Doe'',
       str_of ''Austin'', str_of ''TX'', str_of ''A12345'', str_of ''1 '']]"

definition ACFTREF_padded :: "str list list" where
  "ACFTREF_padded =
     [ACFTREF_header,
      [str_of ''1234567A '', str_of ''CESSNA'', str_of ''172S'']]"

definition ACFTREF_both :: "str list list" where
  "ACFTREF_both =
     [ACFTREF_header,
      [str_of ''1234567A '', str_of ''CESSNA'', str_of ''172S''],
      [str_of ''1234567A'', str_of ''PIPER'', str_of ''PA-28'']]"

definition Jane_Unknown :: registration where
  "Jane_Unknown =
     \<lparr>tail_number = str_of ''N12345'', aircraft_reference_code = str_of ''1234567A'',
      year = str_of ''2005'', owner_name = str_of ''Jane Doe'', city = str_of ''Austin'',
      state = str_of ''TX'', mode_s_hex = str_of ''A12345'',
      registrant_type = str_of ''Unknown''\<rparr>"

definition padded_reference :: reference where
  "padded_reference =
     [Some (str_of ''1234567A '') \<mapsto> \<lparr>manufacturer = str_of ''CESSNA'', model = str_of ''172S''\<rparr>]"

definition MASTER_wide_header :: "str list" where
  "MASTER_wide_header = MASTER_header @ [str_of ''MODE S CODE'']"

definition MASTER_blank_rows :: "str list list" where
  "MASTER_blank_rows =
     [[[], [], [], [], [], [], [], []],
      [],
      [str_of ''N12345'', str_of ''ZZZZZZZ'', str_of ''not a year'', [], [], [], [32, 9]]]"

definition MASTER_short_rows :: "str list list" where
  "MASTER_short_rows =
     [[str_of ''N12345'', str_of ''1234567A'', str_of ''2005'', str_of ''Jane Doe'',
       str_of ''Austin'', str_of ''TX'', str_of ''A12345'', str_of ''1''],
      [str_of ''N54321'', str_of ''1234567A'', str_of ''2005'']]"

definition Blank :: registration where
  "Blank =
     \<lparr>tail_number = [], aircraft_reference_code = [], year = [], owner_name = [], city = [],
      state = [], mode_s_hex = [], registrant_type = str_of ''Unknown''\<rparr>"

definition Malformed :: registration where
  "Malformed =
     \<lparr>tail_number = str_of ''N12345'', aircraft_reference_code = str_of ''ZZZZZZZ'',
      year = str_of ''not a year'', owner_name = [], city = [],
      state = [], mode_s_hex = [], registrant_type = str_of ''Unknown''\<rparr>"

definition both_reference :: reference where
  "both_reference =
     [Some (str_of ''1234567A '') \<mapsto> \<lparr>manufacturer = str_of ''CESSNA'', model = str_of ''172S''\<rparr>,
      Some (str_of ''1234567A'') \<mapsto> \<lparr>manufacturer = str_of ''PIPER'', model = str_of ''PA-28''\<rparr>]"

section \<open>Sequencing, lookups and stripping\<close>

lemma andthen_Inl [simp]: "andthen (Inl e) f = Inl e"
  by (simp add: andthen_def)

lemma andthen_Inr [simp]: "andthen (Inr v) f = f v"
  by (simp add: andthen_def)

lemma andthen_eq_Inr: "andthen x f = Inr y \<longleftrightarrow> (\<exists>v. x = Inr v \<and> f v = Inr y)"
  by (cases x) simp_all

lemma getitem_eq_Inr: "getitem row key = Inr v \<longleftrightarrow> row key = Some v"
  by (simp add: getitem_def split: option.splits)

lemma cell_strip_eq_Inr: "cell_strip v = Inr s \<longleftrightarrow> (\<exists>t. v = Some t \<and> s = strip t)"
  by (cases v) (auto simp: cell_strip_def)

lemma registrant_type_of_cases:
  "registrant_type_of code =
     (if code = Some (str_of ''1'') then str_of ''Individual''
      else if code = Some (str_of ''2'') then str_of ''Partnership''
      else if code = Some (str_of ''3'') then str_of ''Corporation''
      else if code = Some (str_of ''4'') then str_of ''Co-Owned''
      else if code = Some (str_of ''5'') then str_of ''Government''
      else if code = Some (str_of ''7'') then str_of ''LLC''
      else if code = Some (str_of ''8'') then str_of ''Non Citizen Corporation''
      else if code = Some (str_of ''9'') then str_of ''Non Citizen Co-Owned''
      else str_of ''Unknown'')"
  by (cases code) (simp_all add: registrant_type_of_def TYPE_REGISTRATION_MAP_def str_of_def)

lemma registration_row_Inr:
  "registration_row row = Inr r \<longleftrightarrow>
     (\<exists>t a y n c s h code.
        row (str_of ''N-NUMBER'') = Some (Some t) \<and>
        row (str_of ''MFR MDL CODE'') = Some (Some a) \<and>
        row (str_of ''YEAR MFR'') = Some (Some y) \<and>
        row (str_of ''NAME'') = Some (Some n) \<and>
        row (str_of ''CITY'') = Some (Some c) \<and>
        row (str_of ''STATE'') = Some (Some s) \<and>
        row (str_of ''MODE S CODE HEX'') = Some (Some h) \<and>
        row (str_of ''TYPE REGISTRANT'') = Some code \<and>
        r = \<lparr>tail_number = strip t, aircraft_reference_code = strip a, year = strip y,
             owner_name = strip n, city = strip c, state = strip s, mode_s_hex = strip h,
             registrant_type = registrant_type_of code\<rparr>)"
  unfolding registration_row_def andthen_eq_Inr getitem_eq_Inr cell_strip_eq_Inr
  by auto

lemma registration_loop_Inr:
  "registration_loop acc ds = Inr recs \<longleftrightarrow>
     (\<exists>rs. list_all2 (\<lambda>d r. registration_row d = Inr r) ds rs \<and> recs = acc @ rs)"
proof (induction ds arbitrary: acc)
  case Nil
  show ?case by auto
next
  case (Cons d ds)
  show ?case
    by (auto simp: andthen_eq_Inr Cons.IH list_all2_Cons1)
qed

lemma rstrip_decomp: "t = rev (dropWhile P (rev t)) @ rev (takeWhile P (rev t))"
proof -
  have "rev (dropWhile P (rev t)) @ rev (takeWhile P (rev t)) =
        rev (takeWhile P (rev t) @ dropWhile P (rev t))"
    by (simp only: rev_append)
  also have "\<dots> = rev (rev t)" by (simp only: takeWhile_dropWhile_id)
  finally show ?thesis by simp
qed

lemma trimmed_strip: "trimmed (strip s)"
proof (cases "strip s")
  case Nil
  then show ?thesis by (simp add: trimmed_def)
next
  case (Cons c cs)
  define t where "t = dropWhile isspace s"
  define u where "u = dropWhile isspace (rev t)"
  have su: "strip s = rev u" by (simp add: strip_def t_def u_def)
  from Cons su have une: "u \<noteq> []" by auto
  have "\<not> isspace (hd u)" using une unfolding u_def by (rule hd_dropWhile)
  then have l: "\<not> isspace (last (strip s))" using une by (simp add: su last_rev)
  have "t = rev u @ rev (takeWhile isspace (rev t))"
    unfolding u_def by (rule rstrip_decomp)
  then have tt: "t = (c # cs) @ rev (takeWhile isspace (rev t))" using Cons su by simp
  then have tne: "t \<noteq> []" by auto
  have "\<not> isspace (hd t)" using tne unfolding t_def by (rule hd_dropWhile)
  moreover have "hd t = c" by (subst tt) simp
  ultimately show ?thesis using l Cons by (simp add: trimmed_def)
qed

lemma strip_id: "trimmed s \<Longrightarrow> strip s = s"
proof (cases s)
  case Nil
  then show ?thesis by (simp add: strip_def)
next
  case (Cons c cs)
  assume "trimmed s"
  then have a: "\<not> isspace c" and b: "\<not> isspace (last s)" using Cons by (simp_all add: trimmed_def)
  have 1: "dropWhile isspace s = s" using a Cons by simp
  obtain x xs where r: "rev s = x # xs" using Cons by (cases "rev s") auto
  have "hd (rev s) = last s" using Cons by (simp add: hd_rev)
  with r have "x = last s" by simp
  with b have "dropWhile isspace (x # xs) = x # xs" by simp
  then have "dropWhile isspace (rev s) = rev s" by (simp only: r)
  then show ?thesis by (simp add: strip_def 1)
qed

lemma trimmed_str_of_literals:
  "trimmed (str_of ''Unknown'')" "trimmed (str_of ''Individual'')"
  "trimmed (str_of ''Partnership'')" "trimmed (str_of ''Corporation'')"
  "trimmed (str_of ''Co-Owned'')" "trimmed (str_of ''Government'')"
  "trimmed (str_of ''LLC'')" "trimmed (str_of ''Non Citizen Corporation'')"
  "trimmed (str_of ''Non Citizen Co-Owned'')"
  by (simp_all add: trimmed_def str_of_def isspace_def)

lemma trimmed_registrant_type_of: "trimmed (registrant_type_of code)"
  by (simp add: registrant_type_of_cases trimmed_str_of_literals)

lemma foldl_setitem:
  "foldl setitem m ps k = (case map_of (rev ps) k of None \<Rightarrow> m k | Some v \<Rightarrow> Some v)"
  by (induction ps arbitrary: m) (auto simp: setitem_def map_add_def split: option.splits)

lemma map_of_rest:
  "map_of (rev (map (\<lambda>key. (key, None)) ks)) k = (if k \<in> set ks then Some None else None)"
  by (induction ks) (auto simp: map_add_def split: option.splits)

lemma fst_zip_Some: "fst ` set (zip hdr (map Some row)) = set (take (length row) hdr)"
proof -
  have "map fst (zip hdr (map Some row)) = take (length row) hdr"
    by (simp add: map_fst_zip_take min_def)
  then have "set (map fst (zip hdr (map Some row))) = set (take (length row) hdr)"
    by simp
  then show ?thesis by simp
qed

lemma map_of_zip_None:
  "map_of (rev (zip hdr (map Some row))) k = None \<longleftrightarrow>
     k \<notin> set (take (length row) hdr)"
  by (simp add: map_of_eq_None_iff fst_zip_Some)

lemma map_of_zip_Some:
  assumes "map_of (rev (zip hdr (map Some row))) k = Some v"
  shows "\<exists>x. v = Some x"
proof -
  from assms have "(k, v) \<in> set (rev (zip hdr (map Some row)))" by (rule map_of_SomeD)
  then have "v \<in> set (map Some row)" by (auto dest: set_zip_rightD)
  then show ?thesis by auto
qed

lemma map_of_zip_SomeD:
  assumes "map_of (rev (zip hdr (map Some row))) k = Some v"
  shows "k \<in> set (take (length row) hdr)"
  using assms map_of_zip_None[of hdr row k] by auto

lemma dict_row_Some_None:
  "dict_row hdr row k = Some None \<longleftrightarrow> k \<in> set (drop (length row) hdr)"
  by (auto simp: dict_row_def foldl_setitem map_of_rest dest: map_of_zip_Some split: option.splits)

lemma set_take_drop:
  "set hdr = set (take n hdr) \<union> set (drop n hdr)"
proof -
  have "set (take n hdr @ drop n hdr) = set (take n hdr) \<union> set (drop n hdr)"
    by (rule set_append)
  then show ?thesis by simp
qed

lemma dict_row_None: "dict_row hdr row k = None \<longleftrightarrow> k \<notin> set hdr"
  using set_take_drop[of hdr "length row"]
  by (auto simp: dict_row_def foldl_setitem map_of_rest map_of_zip_None
           dest: map_of_zip_SomeD split: option.splits)

lemma dict_row_Some_Some:
  "(\<exists>v. dict_row hdr row k = Some (Some v)) \<longleftrightarrow>
     k \<in> set hdr \<and> k \<notin> set (drop (length row) hdr)"
proof (cases "dict_row hdr row k")
  case None
  then show ?thesis using dict_row_None[of hdr row k] by simp
next
  case (Some c)
  then have "k \<in> set hdr" using dict_row_None[of hdr row k] by auto
  then show ?thesis using Some dict_row_Some_None[of hdr row k] by (cases c) auto
qed

lemmas eval_defs =
  process_aircraft_registration_file_def process_aircraft_reference_file_def
  registration_row_def reference_row_def getitem_def cell_strip_def dict_row_def setitem_def
  strip_def isspace_def str_of_def registrant_type_of_def TYPE_REGISTRATION_MAP_def

lemma process_registration_Inr:
  "process_aircraft_registration_file (Contents rows) = Inr recs \<longleftrightarrow>
     list_all2 (\<lambda>d r. registration_row d = Inr r) (DictReader rows) recs"
  by (simp add: process_aircraft_registration_file_def registration_loop_Inr)


section \<open>The registrant type\<close>



section \<open>The writer\<close>

lemma write_loop_append:
  "write_loop aircraft_reference regs output_file =
     output_file @ map (\<lambda>r. csv_writerow (output_fields aircraft_reference r)) regs"
  by (induction regs arbitrary: output_file) simp_all

lemma create_emcomm_tools_file_eq:
  "create_emcomm_tools_file regs aircraft_reference output_file =
     output_file @ csv_writerow fieldnames #
       map (\<lambda>r. csv_writerow (output_fields aircraft_reference r)) regs"
  by (simp add: create_emcomm_tools_file_def write_loop_append)

lemma length_output_fields: "length (output_fields aircraft_reference r) = 9"
  by (simp add: output_fields_def Let_def)

lemma csv_writerow_output_fields:
  "csv_writerow (output_fields aircraft_reference r) =
     join 124 (map csv_field (output_fields aircraft_reference r)) @ [13, 10]"
proof -
  have "output_fields aircraft_reference r \<noteq> [[]]"
    using length_output_fields[of aircraft_reference r] by auto
  then show ?thesis by (simp add: csv_writerow_def)
qed

lemma header_line:
  "csv_writerow fieldnames =
     str_of ''tail_number|make|model|year|owner_name|city|state|mode_s_hex|registrant_type'' @ [13, 10]"
  by (simp add: csv_writerow_def fieldnames_def csv_field_def special_def str_of_def)

text \<open>
  C1: whatever the registration records and the reference dictionary, the writer puts on an
  empty output first the header record
  \<open>tail_number|make|model|year|owner_name|city|state|mode_s_hex|registrant_type\<close>, then
  one record per registration record, in the order of the input, each the fields of the
  record joined by the pipe character; the output has one record more than the input, and
  for no input it is the header alone.
\<close>

theorem header_then_one_row_per_record:
  "create_emcomm_tools_file aircraft_registrations aircraft_reference [] =
     (str_of ''tail_number|make|model|year|owner_name|city|state|mode_s_hex|registrant_type'' @ [13, 10]) #
     map (\<lambda>r. join 124 (map csv_field (output_fields aircraft_reference r)) @ [13, 10])
       aircraft_registrations \<and>
   length (create_emcomm_tools_file aircraft_registrations aircraft_reference []) =
     Suc (length aircraft_registrations) \<and>
   create_emcomm_tools_file [] aircraft_reference [] =
     [str_of ''tail_number|make|model|year|owner_name|city|state|mode_s_hex|registrant_type'' @ [13, 10]]"
  by (simp add: create_emcomm_tools_file_eq header_line csv_writerow_output_fields)

theorem header_then_one_row_per_record_witness:
  "create_emcomm_tools_file [Jane_Doe, No_Code, Jane_Doe] CESSNA_reference [] =
     [str_of ''tail_number|make|model|year|owner_name|city|state|mode_s_hex|registrant_type'' @ [13, 10],
      str_of ''N12345|CESSNA|172S|2005|Jane Doe|Austin|TX|A12345|Individual'' @ [13, 10],
      str_of ''N2|Unknown|Unknown||\"A|B\"||||Unknown'' @ [13, 10],
      str_of ''N12345|CESSNA|172S|2005|Jane Doe|Austin|TX|A12345|Individual'' @ [13, 10]]"
  using header_then_one_row_per_record [of "[Jane_Doe, No_Code, Jane_Doe]" CESSNA_reference]
  by (simp add: Jane_Doe_def No_Code_def CESSNA_reference_def output_fields_def csv_field_def
        special_def str_of_def)

lemma written_record:
  "i < length regs \<Longrightarrow>
   create_emcomm_tools_file regs aircraft_reference [] ! Suc i =
     join 124 (map csv_field (output_fields aircraft_reference (regs ! i))) @ [13, 10]"
  by (simp add: create_emcomm_tools_file_eq csv_writerow_output_fields)

text \<open>
  C2: the record written for the \<open>i\<close>-th registration is its fields joined by the pipe
  character, with, in the columns \<open>make\<close> and \<open>model\<close>, the manufacturer and the model of
  the entry the reference dictionary has for the registration's reference code, and the
  literal \<open>"Unknown"\<close> in both when the dictionary has no entry for the code, the empty
  code included.
\<close>

theorem make_and_model_resolution:
  assumes "i < length aircraft_registrations"
  shows "fieldnames ! 1 = str_of ''make'' \<and> fieldnames ! 2 = str_of ''model'' \<and>
         (\<forall>e. aircraft_reference (Some (aircraft_reference_code (aircraft_registrations ! i))) = Some e \<longrightarrow>
            create_emcomm_tools_file aircraft_registrations aircraft_reference [] ! Suc i =
              join 124 (map csv_field
                [tail_number (aircraft_registrations ! i), manufacturer e, entry.model e,
                 year (aircraft_registrations ! i), owner_name (aircraft_registrations ! i),
                 city (aircraft_registrations ! i), state (aircraft_registrations ! i),
                 mode_s_hex (aircraft_registrations ! i),
                 registrant_type (aircraft_registrations ! i)]) @ [13, 10]) \<and>
         (aircraft_reference (Some (aircraft_reference_code (aircraft_registrations ! i))) = None \<longrightarrow>
            create_emcomm_tools_file aircraft_registrations aircraft_reference [] ! Suc i =
              join 124 (map csv_field
                [tail_number (aircraft_registrations ! i), str_of ''Unknown'', str_of ''Unknown'',
                 year (aircraft_registrations ! i), owner_name (aircraft_registrations ! i),
                 city (aircraft_registrations ! i), state (aircraft_registrations ! i),
                 mode_s_hex (aircraft_registrations ! i),
                 registrant_type (aircraft_registrations ! i)]) @ [13, 10])"
  using assms
  by (simp add: written_record fieldnames_def output_fields_def)

theorem make_and_model_resolution_witness:
  "CESSNA_reference (Some (aircraft_reference_code ([Jane_Doe, No_Code] ! 0))) =
     Some \<lparr>manufacturer = str_of ''CESSNA'', model = str_of ''172S''\<rparr> \<and>
   create_emcomm_tools_file [Jane_Doe, No_Code] CESSNA_reference [] ! Suc 0 =
     str_of ''N12345|CESSNA|172S|2005|Jane Doe|Austin|TX|A12345|Individual'' @ [13, 10] \<and>
   aircraft_reference_code ([Jane_Doe, No_Code] ! 1) = [] \<and>
   CESSNA_reference (Some (aircraft_reference_code ([Jane_Doe, No_Code] ! 1))) = None \<and>
   create_emcomm_tools_file [Jane_Doe, No_Code] CESSNA_reference [] ! Suc 1 =
     str_of ''N2|Unknown|Unknown||\"A|B\"||||Unknown'' @ [13, 10]"
proof -
  have h0: "(0::nat) < length [Jane_Doe, No_Code]" and h1: "(1::nat) < length [Jane_Doe, No_Code]"
    by simp_all
  have p: "CESSNA_reference (Some (aircraft_reference_code ([Jane_Doe, No_Code] ! 0))) =
     Some \<lparr>manufacturer = str_of ''CESSNA'', model = str_of ''172S''\<rparr>"
    by (simp add: CESSNA_reference_def Jane_Doe_def)
  have a: "CESSNA_reference (Some (aircraft_reference_code ([Jane_Doe, No_Code] ! 1))) = None"
    by (simp add: CESSNA_reference_def No_Code_def str_of_def)
  have c: "aircraft_reference_code ([Jane_Doe, No_Code] ! 1) = []"
    by (simp add: No_Code_def)
  have t0: "join 124 (map csv_field
                [tail_number ([Jane_Doe, No_Code] ! 0), str_of ''CESSNA'', str_of ''172S'',
                 year ([Jane_Doe, No_Code] ! 0), owner_name ([Jane_Doe, No_Code] ! 0),
                 city ([Jane_Doe, No_Code] ! 0), state ([Jane_Doe, No_Code] ! 0),
                 mode_s_hex ([Jane_Doe, No_Code] ! 0),
                 registrant_type ([Jane_Doe, No_Code] ! 0)]) @ [13, 10] =
            str_of ''N12345|CESSNA|172S|2005|Jane Doe|Austin|TX|A12345|Individual'' @ [13, 10]"
    by (simp add: Jane_Doe_def csv_field_def special_def str_of_def)
  have t1: "join 124 (map csv_field
                [tail_number ([Jane_Doe, No_Code] ! 1), str_of ''Unknown'', str_of ''Unknown'',
                 year ([Jane_Doe, No_Code] ! 1), owner_name ([Jane_Doe, No_Code] ! 1),
                 city ([Jane_Doe, No_Code] ! 1), state ([Jane_Doe, No_Code] ! 1),
                 mode_s_hex ([Jane_Doe, No_Code] ! 1),
                 registrant_type ([Jane_Doe, No_Code] ! 1)]) @ [13, 10] =
            str_of ''N2|Unknown|Unknown||\"A|B\"||||Unknown'' @ [13, 10]"
    by (simp add: No_Code_def csv_field_def special_def str_of_def)
  from make_and_model_resolution [OF h0, of CESSNA_reference] p t0
  have r0: "create_emcomm_tools_file [Jane_Doe, No_Code] CESSNA_reference [] ! Suc 0 =
     str_of ''N12345|CESSNA|172S|2005|Jane Doe|Austin|TX|A12345|Individual'' @ [13, 10]"
    by simp
  from make_and_model_resolution [OF h1, of CESSNA_reference] a t1
  have r1: "create_emcomm_tools_file [Jane_Doe, No_Code] CESSNA_reference [] ! Suc 1 =
     str_of ''N2|Unknown|Unknown||\"A|B\"||||Unknown'' @ [13, 10]"
    by simp
  from p r0 c a r1 show ?thesis by blast
qed

section \<open>Acquisition and the whole run\<close>

lemma main_remote:
  "registration_file = None \<or> reference_file = None \<Longrightarrow>
   main database registration_file reference_file =
     andthen (download_database_file database)
       (\<lambda>(aircraft_reference, aircraft_registrations).
          Inr (create_emcomm_tools_file aircraft_registrations aircraft_reference []))"
  by (auto simp: main_def split: option.splits)

text \<open>
  C7: in remote mode, when the downloaded archive opens and its name list lacks
  \<open>MASTER.txt\<close> or \<open>ACFTREF.txt\<close>, \<open>download_database_file\<close> raises
  \<open>FileNotFoundError\<close> with a message naming a missing entry; this is not the
  \<open>BadZipFile\<close> of an unreadable archive, and the run ends with that exception
  without writing anything.
\<close>

theorem missing_entry_aborts:
  assumes "str_of ''MASTER.txt'' \<notin> set file_list \<or> str_of ''ACFTREF.txt'' \<notin> set file_list"
    and "registration_file = None \<or> reference_file = None"
  shows "\<exists>name. (name = str_of ''MASTER.txt'' \<or> name = str_of ''ACFTREF.txt'') \<and>
           name \<notin> set file_list \<and>
           download_database_file (Body (Archive file_list extract)) =
             Inl (FileNotFoundError (name @ str_of '' file not found in database zip file'')) \<and>
           main (Body (Archive file_list extract)) registration_file reference_file =
             Inl (FileNotFoundError (name @ str_of '' file not found in database zip file'')) \<and>
           FileNotFoundError (name @ str_of '' file not found in database zip file'') \<noteq> BadZipFile"
proof (cases "str_of ''MASTER.txt'' \<in> set file_list")
  case False
  then have "download_database_file (Body (Archive file_list extract)) =
      Inl (FileNotFoundError (str_of ''MASTER.txt'' @ str_of '' file not found in database zip file''))"
    by (simp add: download_database_file_def str_of_def)
  with False assms(2) show ?thesis by (auto simp: main_remote)
next
  case True
  with assms(1) have a: "str_of ''ACFTREF.txt'' \<notin> set file_list" by simp
  with True have "download_database_file (Body (Archive file_list extract)) =
      Inl (FileNotFoundError (str_of ''ACFTREF.txt'' @ str_of '' file not found in database zip file''))"
    by (simp add: download_database_file_def str_of_def)
  with a assms(2) show ?thesis by (auto simp: main_remote)
qed

theorem missing_entry_aborts_witness:
  "str_of ''ACFTREF.txt'' \<notin> set [str_of ''MASTER.txt'', str_of ''README.txt''] \<and>
   download_database_file (Body (Archive [str_of ''MASTER.txt'', str_of ''README.txt''] example_member)) =
     Inl (FileNotFoundError (str_of ''ACFTREF.txt file not found in database zip file'')) \<and>
   main (Body (Archive [str_of ''MASTER.txt'', str_of ''README.txt''] example_member)) None None =
     Inl (FileNotFoundError (str_of ''ACFTREF.txt file not found in database zip file''))"
proof -
  have h1: "str_of ''MASTER.txt'' \<notin> set [str_of ''MASTER.txt'', str_of ''README.txt''] \<or>
            str_of ''ACFTREF.txt'' \<notin> set [str_of ''MASTER.txt'', str_of ''README.txt'']"
    by (simp add: str_of_def)
  have h2: "(None :: source option) = None \<or> (None :: source option) = None" by simp
  from missing_entry_aborts [OF h1 h2, of example_member] show ?thesis
    by (auto simp: str_of_def)
qed

section \<open>The reference dictionary\<close>

lemma reference_row_Inr:
  "reference_row acc row = Inr r \<longleftrightarrow>
     (\<exists>code m mo.
        row (str_of ''CODE'') = Some code \<and>
        row (str_of ''MFR'') = Some (Some m) \<and>
        row (str_of ''MODEL'') = Some (Some mo) \<and>
        r = acc(code \<mapsto> \<lparr>manufacturer = strip m, model = strip mo\<rparr>))"
  unfolding reference_row_def andthen_eq_Inr getitem_eq_Inr cell_strip_eq_Inr
  by auto

lemma reference_loop_unchanged:
  "reference_loop acc ds = Inr r \<Longrightarrow> \<forall>d \<in> set ds. d (str_of ''CODE'') \<noteq> Some code \<Longrightarrow>
   r code = acc code"
proof (induction ds arbitrary: acc)
  case Nil
  then show ?case by simp
next
  case (Cons d ds)
  from Cons.prems(1) obtain acc' where 1: "reference_row acc d = Inr acc'"
    and 2: "reference_loop acc' ds = Inr r"
    by (auto simp: andthen_eq_Inr)
  from 2 Cons.prems(2) have "r code = acc' code" by (intro Cons.IH) auto
  moreover from 1 Cons.prems(2) have "acc' code = acc code"
    by (auto simp: reference_row_Inr)
  ultimately show ?case by simp
qed

lemma reference_loop_last:
  "reference_loop acc ds = Inr r \<Longrightarrow> i < length ds \<Longrightarrow>
   (ds ! i) (str_of ''CODE'') = Some code \<Longrightarrow>
   \<forall>j. i < j \<and> j < length ds \<longrightarrow> (ds ! j) (str_of ''CODE'') \<noteq> Some code \<Longrightarrow>
   \<exists>m mo. (ds ! i) (str_of ''MFR'') = Some (Some m) \<and>
           (ds ! i) (str_of ''MODEL'') = Some (Some mo) \<and>
           r code = Some \<lparr>manufacturer = strip m, model = strip mo\<rparr>"
proof (induction ds arbitrary: acc i)
  case Nil
  then show ?case by simp
next
  case (Cons d ds)
  from Cons.prems(1) obtain acc' where 1: "reference_row acc d = Inr acc'"
    and 2: "reference_loop acc' ds = Inr r"
    by (auto simp: andthen_eq_Inr)
  show ?case
  proof (cases i)
    case 0
    have "\<forall>d' \<in> set ds. d' (str_of ''CODE'') \<noteq> Some code"
    proof
      fix d' assume "d' \<in> set ds"
      then obtain j where "j < length ds" "ds ! j = d'" by (auto simp: in_set_conv_nth)
      with Cons.prems(4) 0 show "d' (str_of ''CODE'') \<noteq> Some code"
        by (auto dest: spec[of _ "Suc j"])
    qed
    with 2 have "r code = acc' code" by (rule reference_loop_unchanged)
    with 1 Cons.prems(3) 0 show ?thesis by (auto simp: reference_row_Inr)
  next
    case (Suc k)
    have "\<forall>j. k < j \<and> j < length ds \<longrightarrow> (ds ! j) (str_of ''CODE'') \<noteq> Some code"
    proof (intro allI impI)
      fix j assume "k < j \<and> j < length ds"
      with Cons.prems(4) Suc show "(ds ! j) (str_of ''CODE'') \<noteq> Some code"
        by (auto dest: spec[of _ "Suc j"])
    qed
    with 2 Cons.prems(2,3) Suc
    have "\<exists>m mo. (ds ! k) (str_of ''MFR'') = Some (Some m) \<and>
           (ds ! k) (str_of ''MODEL'') = Some (Some mo) \<and>
           r code = Some \<lparr>manufacturer = strip m, model = strip mo\<rparr>"
      by (intro Cons.IH) auto
    with Suc show ?thesis by simp
  qed
qed

lemma reference_loop_trimmed:
  "reference_loop acc ds = Inr r \<Longrightarrow>
   \<forall>k e. acc k = Some e \<longrightarrow> trimmed (manufacturer e) \<and> trimmed (entry.model e) \<Longrightarrow>
   r k = Some e \<Longrightarrow> trimmed (manufacturer e) \<and> trimmed (entry.model e)"
proof (induction ds arbitrary: acc)
  case Nil
  then show ?case by auto
next
  case (Cons d ds)
  from Cons.prems(1) obtain acc' where 1: "reference_row acc d = Inr acc'"
    and 2: "reference_loop acc' ds = Inr r"
    by (auto simp: andthen_eq_Inr)
  from 1 Cons.prems(2)
  have "\<forall>k e. acc' k = Some e \<longrightarrow> trimmed (manufacturer e) \<and> trimmed (entry.model e)"
    by (auto simp: reference_row_Inr trimmed_strip split: if_splits)
  with 2 Cons.prems(3) show ?case by (intro Cons.IH[of acc'])
qed

lemma reference_loop_keys:
  "reference_loop acc ds = Inr r \<Longrightarrow> r k = Some e \<Longrightarrow>
   acc k = Some e \<or> (\<exists>d \<in> set ds. d (str_of ''CODE'') = Some k)"
proof (induction ds arbitrary: acc)
  case Nil
  then show ?case by auto
next
  case (Cons d ds)
  from Cons.prems(1) obtain acc' where 1: "reference_row acc d = Inr acc'"
    and 2: "reference_loop acc' ds = Inr r"
    by (auto simp: andthen_eq_Inr)
  from 2 Cons.prems(2) have "acc' k = Some e \<or> (\<exists>d \<in> set ds. d (str_of ''CODE'') = Some k)"
    by (rule Cons.IH)
  with 1 show ?case by (auto simp: reference_row_Inr split: if_splits)
qed

text \<open>
  C4: when the reference loader returns, a code that the \<open>i\<close>-th data row carries and no
  later data row carries is bound to the stripped manufacturer and model of that row,
  however many earlier rows carry the same code.
\<close>

theorem last_row_wins:
  assumes "process_aircraft_reference_file (Contents rows) = Inr aircraft_reference"
    and "i < length (DictReader rows)"
    and "getitem (DictReader rows ! i) (str_of ''CODE'') = Inr code"
    and "\<forall>j. i < j \<and> j < length (DictReader rows) \<longrightarrow>
           getitem (DictReader rows ! j) (str_of ''CODE'') \<noteq> Inr code"
  shows "\<exists>m mo. getitem (DictReader rows ! i) (str_of ''MFR'') = Inr (Some m) \<and>
           getitem (DictReader rows ! i) (str_of ''MODEL'') = Inr (Some mo) \<and>
           aircraft_reference code = Some \<lparr>manufacturer = strip m, model = strip mo\<rparr>"
proof -
  from assms(1) have "reference_loop Map.empty (DictReader rows) = Inr aircraft_reference"
    by (simp add: process_aircraft_reference_file_def)
  then show ?thesis
    using assms(2-4) unfolding getitem_eq_Inr by (rule reference_loop_last)
qed

theorem last_row_wins_witness:
  "process_aircraft_reference_file (Contents ACFTREF_example) = Inr CESSNA_reference \<and>
   length (DictReader ACFTREF_example) = 2 \<and>
   getitem (DictReader ACFTREF_example ! 0) (str_of ''CODE'') = Inr (Some (str_of ''1234567A'')) \<and>
   getitem (DictReader ACFTREF_example ! 0) (str_of ''MFR'') = Inr (Some (str_of ''PIPER '')) \<and>
   getitem (DictReader ACFTREF_example ! 1) (str_of ''CODE'') = Inr (Some (str_of ''1234567A'')) \<and>
   getitem (DictReader ACFTREF_example ! 1) (str_of ''MFR'') = Inr (Some (str_of ''CESSNA   '')) \<and>
   getitem (DictReader ACFTREF_example ! 1) (str_of ''MODEL'') = Inr (Some (str_of '' 172S '')) \<and>
   CESSNA_reference (Some (str_of ''1234567A'')) =
     Some \<lparr>manufacturer = str_of ''CESSNA'', model = str_of ''172S''\<rparr>"
proof -
  have h1: "process_aircraft_reference_file (Contents ACFTREF_example) = Inr CESSNA_reference"
    by (simp add: ACFTREF_example_def ACFTREF_header_def CESSNA_reference_def eval_defs)
  have len: "length (DictReader ACFTREF_example) = 2"
    by (simp add: ACFTREF_example_def ACFTREF_header_def str_of_def)
  have h2: "1 < length (DictReader ACFTREF_example)" by (simp add: len)
  have h3: "getitem (DictReader ACFTREF_example ! 1) (str_of ''CODE'') = Inr (Some (str_of ''1234567A''))"
    by (simp add: ACFTREF_example_def ACFTREF_header_def eval_defs)
  have h4: "\<forall>j. 1 < j \<and> j < length (DictReader ACFTREF_example) \<longrightarrow>
      getitem (DictReader ACFTREF_example ! j) (str_of ''CODE'') \<noteq> Inr (Some (str_of ''1234567A''))"
    unfolding len by arith
  have rest:
    "getitem (DictReader ACFTREF_example ! 0) (str_of ''CODE'') = Inr (Some (str_of ''1234567A''))"
    "getitem (DictReader ACFTREF_example ! 0) (str_of ''MFR'') = Inr (Some (str_of ''PIPER ''))"
    "getitem (DictReader ACFTREF_example ! 1) (str_of ''MFR'') = Inr (Some (str_of ''CESSNA   ''))"
    "getitem (DictReader ACFTREF_example ! 1) (str_of ''MODEL'') = Inr (Some (str_of '' 172S ''))"
    by (simp_all add: ACFTREF_example_def ACFTREF_header_def eval_defs)
  have s: "strip (str_of ''CESSNA   '') = str_of ''CESSNA''" "strip (str_of '' 172S '') = str_of ''172S''"
    by (simp_all add: strip_def isspace_def str_of_def)
  from last_row_wins [OF h1 h2 h3 h4] h1 len h3 rest s show ?thesis by auto
qed

section \<open>Whitespace\<close>

lemma process_reference_Inr:
  "process_aircraft_reference_file f = Inr r \<longleftrightarrow>
     (\<exists>rows. f = Contents rows \<and> reference_loop Map.empty (DictReader rows) = Inr r)"
  by (cases f) (simp_all add: process_aircraft_reference_file_def andthen_eq_Inr)

lemma reference_entries_trimmed:
  assumes "process_aircraft_reference_file f = Inr aircraft_reference"
    and "aircraft_reference k = Some e"
  shows "trimmed (manufacturer e) \<and> trimmed (entry.model e)"
proof -
  from assms(1) obtain rows where "reference_loop Map.empty (DictReader rows) = Inr aircraft_reference"
    by (auto simp: process_reference_Inr)
  then show ?thesis using _ assms(2) by (rule reference_loop_trimmed) simp
qed

lemma output_fields_trimmed:
  assumes "process_aircraft_reference_file f = Inr aircraft_reference"
    and "registration_row d = Inr r"
  shows "list_all trimmed (output_fields aircraft_reference r)"
proof -
  from assms(2) have "trimmed (tail_number r)" "trimmed (year r)" "trimmed (owner_name r)"
    "trimmed (city r)" "trimmed (state r)" "trimmed (mode_s_hex r)" "trimmed (registrant_type r)"
    by (auto simp: registration_row_Inr trimmed_strip trimmed_registrant_type_of)
  moreover have "\<And>e. aircraft_reference (Some (aircraft_reference_code r)) = Some e \<Longrightarrow>
      trimmed (manufacturer e) \<and> trimmed (entry.model e)"
    using assms(1) by (rule reference_entries_trimmed)
  ultimately show ?thesis
    by (auto simp: output_fields_def Let_def trimmed_str_of_literals split: option.splits)
qed

text \<open>
  C8: the loader strips the seven fields it keeps before they are used, the reference
  code among them, but it looks the registrant-type code up as it was read. On the row
  whose MFR MDL CODE is \<open>"1234567A "\<close> and whose TYPE REGISTRANT is \<open>"1 "\<close>, the
  reference code is stripped and resolves in the reference dictionary, while the
  registrant type is \<open>"Unknown"\<close>, where the stripped code \<open>"1"\<close> gives
  \<open>"Individual"\<close>.
\<close>

theorem padded_registrant_type_not_stripped:
  "process_aircraft_registration_file (Contents MASTER_padded) = Inr [Jane_Unknown] \<and>
   getitem (DictReader MASTER_padded ! 0) (str_of ''MFR MDL CODE'') = Inr (Some (str_of ''1234567A '')) \<and>
   aircraft_reference_code Jane_Unknown = str_of ''1234567A'' \<and>
   getitem (DictReader MASTER_padded ! 0) (str_of ''TYPE REGISTRANT'') = Inr (Some (str_of ''1 '')) \<and>
   registrant_type Jane_Unknown = str_of ''Unknown'' \<and>
   registrant_type_of (Some (strip (str_of ''1 ''))) = str_of ''Individual'' \<and>
   str_of ''Unknown'' \<noteq> str_of ''Individual'' \<and>
   main Failed (Some (Contents MASTER_padded)) (Some (Contents ACFTREF_example)) =
     Inr [str_of ''tail_number|make|model|year|owner_name|city|state|mode_s_hex|registrant_type'' @ [13, 10],
          str_of ''N12345|CESSNA|172S|2005|Jane Doe|Austin|TX|A12345|Unknown'' @ [13, 10]]"
  by (simp add: main_def MASTER_padded_def ACFTREF_example_def MASTER_header_def
        ACFTREF_header_def Jane_Unknown_def eval_defs create_emcomm_tools_file_eq fieldnames_def
        csv_writerow_def output_fields_def csv_field_def special_def)

section \<open>The join key\<close>

lemma reference_loop_bound:
  "reference_loop acc ds = Inr r \<Longrightarrow> d \<in> set ds \<Longrightarrow> d (str_of ''CODE'') = Some code \<Longrightarrow>
   r code \<noteq> None"
proof (induction ds arbitrary: acc d)
  case Nil
  then show ?case by simp
next
  case (Cons x ds)
  from Cons.prems(1) obtain acc' where 1: "reference_row acc x = Inr acc'"
    and 2: "reference_loop acc' ds = Inr r"
    by (auto simp: andthen_eq_Inr)
  show ?case
  proof (cases "\<exists>d' \<in> set ds. d' (str_of ''CODE'') = Some code")
    case True
    then obtain d' where "d' \<in> set ds" "d' (str_of ''CODE'') = Some code" by blast
    with 2 show ?thesis by (rule Cons.IH)
  next
    case False
    then have "\<forall>d' \<in> set ds. d' (str_of ''CODE'') \<noteq> Some code" by blast
    with 2 have "r code = acc' code" by (rule reference_loop_unchanged)
    moreover from False Cons.prems(2,3) have "x (str_of ''CODE'') = Some code" by auto
    with 1 have "acc' code \<noteq> None" by (auto simp: reference_row_Inr)
    ultimately show ?thesis by simp
  qed
qed

lemma strip_neq_untrimmed: "\<not> trimmed code \<Longrightarrow> strip s \<noteq> code"
  using trimmed_strip[of s] by auto

lemma process_registration_source:
  "process_aircraft_registration_file f = Inr regs \<longleftrightarrow>
     (\<exists>rows. f = Contents rows \<and> registration_loop [] (DictReader rows) = Inr regs)"
  by (cases f) (simp_all add: process_aircraft_registration_file_def andthen_eq_Inr)

lemma loaded_code_stripped:
  assumes "process_aircraft_registration_file f = Inr regs" and "r \<in> set regs"
  shows "\<exists>a. aircraft_reference_code r = strip a"
proof -
  from assms(1) obtain rows where "registration_loop [] (DictReader rows) = Inr regs"
    by (auto simp: process_registration_source)
  then have all2: "list_all2 (\<lambda>d r. registration_row d = Inr r) (DictReader rows) regs"
    by (simp add: registration_loop_Inr)
  from assms(2) obtain k where "k < length regs" "regs ! k = r" by (auto simp: in_set_conv_nth)
  with all2 have "registration_row (DictReader rows ! k) = Inr r"
    by (auto dest: list_all2_nthD2)
  then show ?thesis by (auto simp: registration_row_Inr)
qed

lemma written_unresolved:
  assumes "i < length regs"
    and "aircraft_reference (Some (aircraft_reference_code (regs ! i))) = None"
  shows "create_emcomm_tools_file regs aircraft_reference [] ! Suc i =
     join 124 (map csv_field
       [tail_number (regs ! i), str_of ''Unknown'', str_of ''Unknown'', year (regs ! i),
        owner_name (regs ! i), city (regs ! i), state (regs ! i), mode_s_hex (regs ! i),
        registrant_type (regs ! i)]) @ [13, 10]"
  using assms by (simp add: written_record output_fields_def)

lemma written_resolved:
  assumes "i < length regs"
    and "aircraft_reference (Some (aircraft_reference_code (regs ! i))) =
           Some \<lparr>manufacturer = m, model = mo\<rparr>"
  shows "create_emcomm_tools_file regs aircraft_reference [] ! Suc i =
     join 124 (map csv_field
       [tail_number (regs ! i), m, mo, year (regs ! i),
        owner_name (regs ! i), city (regs ! i), state (regs ! i), mode_s_hex (regs ! i),
        registrant_type (regs ! i)]) @ [13, 10]"
  using assms by (simp add: written_record output_fields_def)

text \<open>
  C10, as the code has it: the reference dictionary is keyed by the CODE cell as read, and
  the code of a registration record is stripped. So when a reference row has a CODE with
  leading or trailing whitespace, the dictionary has an entry under that code and no
  registration record of any registration table has that code as its lookup key. A
  registration whose row carries the same padded code looks up the stripped code: the
  record written for it has \<open>"Unknown"\<close> for make and model when no reference row has the
  stripped code as its CODE, and otherwise the stripped MFR and MODEL of the last
  reference row whose CODE is the stripped code.
\<close>

theorem padded_code_never_resolves:
  assumes "process_aircraft_reference_file (Contents reference_rows) = Inr aircraft_reference"
    and "j < length (DictReader reference_rows)"
    and "getitem (DictReader reference_rows ! j) (str_of ''CODE'') = Inr (Some code)"
    and "\<not> trimmed code"
  shows "aircraft_reference (Some code) \<noteq> None \<and>
         (\<forall>registration_source regs r.
            process_aircraft_registration_file registration_source = Inr regs \<and> r \<in> set regs \<longrightarrow>
            aircraft_reference_code r \<noteq> code) \<and>
         (\<forall>registration_rows regs i.
            process_aircraft_registration_file (Contents registration_rows) = Inr regs \<and>
            i < length regs \<and>
            getitem (DictReader registration_rows ! i) (str_of ''MFR MDL CODE'') = Inr (Some code) \<longrightarrow>
            aircraft_reference_code (regs ! i) = strip code \<and>
            ((\<forall>d \<in> set (DictReader reference_rows).
                getitem d (str_of ''CODE'') \<noteq> Inr (Some (strip code))) \<longrightarrow>
             create_emcomm_tools_file regs aircraft_reference [] ! Suc i =
               join 124 (map csv_field
                 [tail_number (regs ! i), str_of ''Unknown'', str_of ''Unknown'', year (regs ! i),
                  owner_name (regs ! i), city (regs ! i), state (regs ! i), mode_s_hex (regs ! i),
                  registrant_type (regs ! i)]) @ [13, 10]) \<and>
            (\<forall>k. k < length (DictReader reference_rows) \<and>
                getitem (DictReader reference_rows ! k) (str_of ''CODE'') = Inr (Some (strip code)) \<and>
                (\<forall>l. k < l \<and> l < length (DictReader reference_rows) \<longrightarrow>
                   getitem (DictReader reference_rows ! l) (str_of ''CODE'') \<noteq>
                     Inr (Some (strip code))) \<longrightarrow>
                (\<exists>m mo.
                   getitem (DictReader reference_rows ! k) (str_of ''MFR'') = Inr (Some m) \<and>
                   getitem (DictReader reference_rows ! k) (str_of ''MODEL'') = Inr (Some mo) \<and>
                   create_emcomm_tools_file regs aircraft_reference [] ! Suc i =
                     join 124 (map csv_field
                       [tail_number (regs ! i), strip m, strip mo, year (regs ! i),
                        owner_name (regs ! i), city (regs ! i), state (regs ! i),
                        mode_s_hex (regs ! i), registrant_type (regs ! i)]) @ [13, 10])))"
proof (intro conjI allI impI)
  from assms(1) have loop: "reference_loop Map.empty (DictReader reference_rows) = Inr aircraft_reference"
    by (simp add: process_aircraft_reference_file_def)
  from assms(2) have "DictReader reference_rows ! j \<in> set (DictReader reference_rows)" by simp
  with loop show "aircraft_reference (Some code) \<noteq> None"
    using assms(3) unfolding getitem_eq_Inr by (rule reference_loop_bound)
  {
    fix registration_source regs r
    assume "process_aircraft_registration_file registration_source = Inr regs \<and> r \<in> set regs"
    then obtain a where "aircraft_reference_code r = strip a"
      by (blast dest: loaded_code_stripped)
    with assms(4) show "aircraft_reference_code r \<noteq> code" by (simp add: strip_neq_untrimmed)
  }
  fix registration_rows regs i
  assume h: "process_aircraft_registration_file (Contents registration_rows) = Inr regs \<and>
            i < length regs \<and>
            getitem (DictReader registration_rows ! i) (str_of ''MFR MDL CODE'') = Inr (Some code)"
  then have all2: "list_all2 (\<lambda>d r. registration_row d = Inr r) (DictReader registration_rows) regs"
    and i: "i < length regs"
    by (simp_all add: process_registration_Inr)
  from all2 i have "registration_row (DictReader registration_rows ! i) = Inr (regs ! i)"
    by (rule list_all2_nthD2)
  with h show key: "aircraft_reference_code (regs ! i) = strip code"
    by (auto simp: registration_row_Inr getitem_eq_Inr)
  {
    assume none: "\<forall>d \<in> set (DictReader reference_rows).
        getitem d (str_of ''CODE'') \<noteq> Inr (Some (strip code))"
    have "aircraft_reference (Some (strip code)) = None"
    proof (cases "aircraft_reference (Some (strip code))")
      case None
      then show ?thesis .
    next
      case (Some e)
      with loop have "Map.empty (Some (strip code)) = Some e \<or>
          (\<exists>d \<in> set (DictReader reference_rows). d (str_of ''CODE'') = Some (Some (strip code)))"
        by (rule reference_loop_keys)
      with none show ?thesis by (auto simp: getitem_eq_Inr)
    qed
    with i key show "create_emcomm_tools_file regs aircraft_reference [] ! Suc i =
               join 124 (map csv_field
                 [tail_number (regs ! i), str_of ''Unknown'', str_of ''Unknown'', year (regs ! i),
                  owner_name (regs ! i), city (regs ! i), state (regs ! i), mode_s_hex (regs ! i),
                  registrant_type (regs ! i)]) @ [13, 10]"
      by (simp add: written_unresolved)
  }
  fix k
  assume k: "k < length (DictReader reference_rows) \<and>
      getitem (DictReader reference_rows ! k) (str_of ''CODE'') = Inr (Some (strip code)) \<and>
      (\<forall>l. k < l \<and> l < length (DictReader reference_rows) \<longrightarrow>
         getitem (DictReader reference_rows ! l) (str_of ''CODE'') \<noteq> Inr (Some (strip code)))"
  then have "\<exists>m mo. (DictReader reference_rows ! k) (str_of ''MFR'') = Some (Some m) \<and>
           (DictReader reference_rows ! k) (str_of ''MODEL'') = Some (Some mo) \<and>
           aircraft_reference (Some (strip code)) = Some \<lparr>manufacturer = strip m, model = strip mo\<rparr>"
    unfolding getitem_eq_Inr by (intro reference_loop_last[OF loop]) auto
  then obtain m mo where m: "(DictReader reference_rows ! k) (str_of ''MFR'') = Some (Some m)"
    "(DictReader reference_rows ! k) (str_of ''MODEL'') = Some (Some mo)"
    "aircraft_reference (Some (strip code)) = Some \<lparr>manufacturer = strip m, model = strip mo\<rparr>"
    by blast
  from i key m(3) have "create_emcomm_tools_file regs aircraft_reference [] ! Suc i =
                     join 124 (map csv_field
                       [tail_number (regs ! i), strip m, strip mo, year (regs ! i),
                        owner_name (regs ! i), city (regs ! i), state (regs ! i),
                        mode_s_hex (regs ! i), registrant_type (regs ! i)]) @ [13, 10]"
    by (simp add: written_resolved)
  with m(1,2) show "\<exists>m mo.
                   getitem (DictReader reference_rows ! k) (str_of ''MFR'') = Inr (Some m) \<and>
                   getitem (DictReader reference_rows ! k) (str_of ''MODEL'') = Inr (Some mo) \<and>
                   create_emcomm_tools_file regs aircraft_reference [] ! Suc i =
                     join 124 (map csv_field
                       [tail_number (regs ! i), strip m, strip mo, year (regs ! i),
                        owner_name (regs ! i), city (regs ! i), state (regs ! i),
                        mode_s_hex (regs ! i), registrant_type (regs ! i)]) @ [13, 10]"
    unfolding getitem_eq_Inr by blast
qed

theorem padded_code_never_resolves_witness:
  "process_aircraft_reference_file (Contents ACFTREF_padded) = Inr padded_reference \<and>
   getitem (DictReader ACFTREF_padded ! 0) (str_of ''CODE'') = Inr (Some (str_of ''1234567A '')) \<and>
   \<not> trimmed (str_of ''1234567A '') \<and>
   process_aircraft_registration_file (Contents MASTER_padded) = Inr [Jane_Unknown] \<and>
   getitem (DictReader MASTER_padded ! 0) (str_of ''MFR MDL CODE'') = Inr (Some (str_of ''1234567A '')) \<and>
   padded_reference (Some (str_of ''1234567A '')) \<noteq> None \<and>
   aircraft_reference_code Jane_Unknown \<noteq> str_of ''1234567A '' \<and>
   aircraft_reference_code ([Jane_Unknown] ! 0) = strip (str_of ''1234567A '') \<and>
   create_emcomm_tools_file [Jane_Unknown] padded_reference [] ! Suc 0 =
     str_of ''N12345|Unknown|Unknown|2005|Jane Doe|Austin|TX|A12345|Unknown'' @ [13, 10] \<and>
   process_aircraft_reference_file (Contents ACFTREF_both) = Inr both_reference \<and>
   getitem (DictReader ACFTREF_both ! 1) (str_of ''CODE'') = Inr (Some (strip (str_of ''1234567A ''))) \<and>
   create_emcomm_tools_file [Jane_Unknown] both_reference [] ! Suc 0 =
     str_of ''N12345|PIPER|PA-28|2005|Jane Doe|Austin|TX|A12345|Unknown'' @ [13, 10]"
proof -
  have h1: "process_aircraft_reference_file (Contents ACFTREF_padded) = Inr padded_reference"
    by (simp add: ACFTREF_padded_def ACFTREF_header_def padded_reference_def eval_defs)
  have h2: "0 < length (DictReader ACFTREF_padded)"
    by (simp add: ACFTREF_padded_def ACFTREF_header_def str_of_def)
  have h3: "getitem (DictReader ACFTREF_padded ! 0) (str_of ''CODE'') = Inr (Some (str_of ''1234567A ''))"
    by (simp add: ACFTREF_padded_def ACFTREF_header_def eval_defs)
  have h4: "\<not> trimmed (str_of ''1234567A '')"
    by (simp add: trimmed_def isspace_def str_of_def)
  have h5: "process_aircraft_registration_file (Contents MASTER_padded) = Inr [Jane_Unknown]"
    by (simp add: MASTER_padded_def MASTER_header_def Jane_Unknown_def eval_defs)
  have h6: "0 < length [Jane_Unknown]" by simp
  have h7: "getitem (DictReader MASTER_padded ! 0) (str_of ''MFR MDL CODE'') = Inr (Some (str_of ''1234567A ''))"
    by (simp add: MASTER_padded_def MASTER_header_def eval_defs)
  have none: "\<forall>d \<in> set (DictReader ACFTREF_padded).
      getitem d (str_of ''CODE'') \<noteq> Inr (Some (strip (str_of ''1234567A '')))"
    by (simp add: ACFTREF_padded_def ACFTREF_header_def eval_defs)
  have in_regs: "Jane_Unknown \<in> set [Jane_Unknown]" by simp
  have b1: "process_aircraft_reference_file (Contents ACFTREF_both) = Inr both_reference"
    by (simp add: ACFTREF_both_def ACFTREF_header_def both_reference_def eval_defs)
  have len: "length (DictReader ACFTREF_both) = 2"
    by (simp add: ACFTREF_both_def ACFTREF_header_def str_of_def)
  have b2: "0 < length (DictReader ACFTREF_both)" by (simp add: len)
  have b3: "getitem (DictReader ACFTREF_both ! 0) (str_of ''CODE'') = Inr (Some (str_of ''1234567A ''))"
    by (simp add: ACFTREF_both_def ACFTREF_header_def eval_defs)
  have k: "1 < length (DictReader ACFTREF_both) \<and>
      getitem (DictReader ACFTREF_both ! 1) (str_of ''CODE'') = Inr (Some (strip (str_of ''1234567A ''))) \<and>
      (\<forall>l. 1 < l \<and> l < length (DictReader ACFTREF_both) \<longrightarrow>
         getitem (DictReader ACFTREF_both ! l) (str_of ''CODE'') \<noteq>
           Inr (Some (strip (str_of ''1234567A ''))))"
  proof (intro conjI)
    show "1 < length (DictReader ACFTREF_both)" by (simp add: len)
    show "getitem (DictReader ACFTREF_both ! 1) (str_of ''CODE'') =
        Inr (Some (strip (str_of ''1234567A '')))"
      by (simp add: ACFTREF_both_def ACFTREF_header_def eval_defs)
    show "\<forall>l. 1 < l \<and> l < length (DictReader ACFTREF_both) \<longrightarrow>
         getitem (DictReader ACFTREF_both ! l) (str_of ''CODE'') \<noteq>
           Inr (Some (strip (str_of ''1234567A '')))"
      unfolding len by arith
  qed
  have cells: "getitem (DictReader ACFTREF_both ! 1) (str_of ''MFR'') = Inr (Some (str_of ''PIPER''))"
    "getitem (DictReader ACFTREF_both ! 1) (str_of ''MODEL'') = Inr (Some (str_of ''PA-28''))"
    by (simp_all add: ACFTREF_both_def ACFTREF_header_def eval_defs)
  have t0: "join 124 (map csv_field
       [tail_number ([Jane_Unknown] ! 0), str_of ''Unknown'', str_of ''Unknown'',
        year ([Jane_Unknown] ! 0), owner_name ([Jane_Unknown] ! 0), city ([Jane_Unknown] ! 0),
        state ([Jane_Unknown] ! 0), mode_s_hex ([Jane_Unknown] ! 0),
        registrant_type ([Jane_Unknown] ! 0)]) @ [13, 10] =
     str_of ''N12345|Unknown|Unknown|2005|Jane Doe|Austin|TX|A12345|Unknown'' @ [13, 10]"
    by (simp add: Jane_Unknown_def csv_field_def special_def str_of_def)
  have t1: "join 124 (map csv_field
       [tail_number ([Jane_Unknown] ! 0), strip (str_of ''PIPER''), strip (str_of ''PA-28''),
        year ([Jane_Unknown] ! 0), owner_name ([Jane_Unknown] ! 0), city ([Jane_Unknown] ! 0),
        state ([Jane_Unknown] ! 0), mode_s_hex ([Jane_Unknown] ! 0),
        registrant_type ([Jane_Unknown] ! 0)]) @ [13, 10] =
     str_of ''N12345|PIPER|PA-28|2005|Jane Doe|Austin|TX|A12345|Unknown'' @ [13, 10]"
    by (simp add: Jane_Unknown_def csv_field_def special_def str_of_def strip_def isspace_def)
  note P = padded_code_never_resolves [OF h1 h2 h3 h4]
  note B = padded_code_never_resolves [OF b1 b2 b3 h4]
  from P have c1: "padded_reference (Some (str_of ''1234567A '')) \<noteq> None" by (rule conjunct1)
  from P h5 in_regs have c2: "aircraft_reference_code Jane_Unknown \<noteq> str_of ''1234567A ''"
    by blast
  from P h5 h6 h7 have c3: "aircraft_reference_code ([Jane_Unknown] ! 0) = strip (str_of ''1234567A '')"
    by blast
  from P h5 h6 h7 none
  have "create_emcomm_tools_file [Jane_Unknown] padded_reference [] ! Suc 0 =
      join 124 (map csv_field
       [tail_number ([Jane_Unknown] ! 0), str_of ''Unknown'', str_of ''Unknown'',
        year ([Jane_Unknown] ! 0), owner_name ([Jane_Unknown] ! 0), city ([Jane_Unknown] ! 0),
        state ([Jane_Unknown] ! 0), mode_s_hex ([Jane_Unknown] ! 0),
        registrant_type ([Jane_Unknown] ! 0)]) @ [13, 10]"
    by blast
  then have c4: "create_emcomm_tools_file [Jane_Unknown] padded_reference [] ! Suc 0 =
     str_of ''N12345|Unknown|Unknown|2005|Jane Doe|Austin|TX|A12345|Unknown'' @ [13, 10]"
    by (simp only: t0)
  from B h5 h6 h7 k
  have "\<exists>m mo.
      getitem (DictReader ACFTREF_both ! 1) (str_of ''MFR'') = Inr (Some m) \<and>
      getitem (DictReader ACFTREF_both ! 1) (str_of ''MODEL'') = Inr (Some mo) \<and>
      create_emcomm_tools_file [Jane_Unknown] both_reference [] ! Suc 0 =
        join 124 (map csv_field
          [tail_number ([Jane_Unknown] ! 0), strip m, strip mo, year ([Jane_Unknown] ! 0),
           owner_name ([Jane_Unknown] ! 0), city ([Jane_Unknown] ! 0), state ([Jane_Unknown] ! 0),
           mode_s_hex ([Jane_Unknown] ! 0), registrant_type ([Jane_Unknown] ! 0)]) @ [13, 10]"
    by blast
  with cells have "create_emcomm_tools_file [Jane_Unknown] both_reference [] ! Suc 0 =
        join 124 (map csv_field
          [tail_number ([Jane_Unknown] ! 0), strip (str_of ''PIPER''), strip (str_of ''PA-28''),
           year ([Jane_Unknown] ! 0),
           owner_name ([Jane_Unknown] ! 0), city ([Jane_Unknown] ! 0), state ([Jane_Unknown] ! 0),
           mode_s_hex ([Jane_Unknown] ! 0), registrant_type ([Jane_Unknown] ! 0)]) @ [13, 10]"
    by auto
  then have c5: "create_emcomm_tools_file [Jane_Unknown] both_reference [] ! Suc 0 =
     str_of ''N12345|PIPER|PA-28|2005|Jane Doe|Austin|TX|A12345|Unknown'' @ [13, 10]"
    by (simp only: t1)
  from h1 h3 h4 h5 h7 c1 c2 c3 c4 b1 k c5 show ?thesis by blast
qed

text \<open>
  With a second reference row whose CODE is the stripped code, the registration that
  carries the padded code does not get \<open>"Unknown"\<close>: it resolves to that other row.
\<close>

theorem padded_code_counterexample:
  "getitem (DictReader ACFTREF_both ! 0) (str_of ''CODE'') = Inr (Some (str_of ''1234567A '')) \<and>
   \<not> trimmed (str_of ''1234567A '') \<and>
   getitem (DictReader MASTER_padded ! 0) (str_of ''MFR MDL CODE'') = Inr (Some (str_of ''1234567A '')) \<and>
   main Failed (Some (Contents MASTER_padded)) (Some (Contents ACFTREF_both)) =
     Inr [str_of ''tail_number|make|model|year|owner_name|city|state|mode_s_hex|registrant_type'' @ [13, 10],
          str_of ''N12345|PIPER|PA-28|2005|Jane Doe|Austin|TX|A12345|Unknown'' @ [13, 10]]"
  by (simp add: main_def MASTER_padded_def ACFTREF_both_def MASTER_header_def
        ACFTREF_header_def eval_defs create_emcomm_tools_file_eq fieldnames_def
        csv_writerow_def output_fields_def csv_field_def special_def trimmed_def)

section \<open>Failures of the loaders\<close>

lemma andthen_getitem:
  "andthen (getitem row key) f = (case row key of None \<Rightarrow> Inl (KeyError key) | Some v \<Rightarrow> f v)"
  by (simp add: getitem_def split: option.splits)

lemma andthen_cell_strip:
  "andthen (cell_strip v) f = (case v of None \<Rightarrow> Inl AttributeError | Some s \<Rightarrow> f (strip s))"
  by (simp add: cell_strip_def split: option.splits)


lemma registration_row_AttributeError:
  assumes "\<forall>key \<in> set MASTER_header. row key \<noteq> None"
    and "\<exists>key \<in> set MASTER_stripped. row key = Some None"
  shows "registration_row row = Inl AttributeError"
  using assms unfolding registration_row_def andthen_getitem andthen_cell_strip
    MASTER_header_def MASTER_stripped_def
  by (auto split: option.splits)

lemma registration_row_ok:
  "(\<exists>r. registration_row row = Inr r) \<longleftrightarrow>
     (\<forall>key \<in> set MASTER_header. row key \<noteq> None) \<and>
     \<not> (\<exists>key \<in> set MASTER_stripped. row key = Some None)"
  unfolding registration_row_Inr MASTER_header_def MASTER_stripped_def
  by auto




lemma registration_loop_Inl:
  "registration_loop acc ds = Inl e \<Longrightarrow> \<exists>d \<in> set ds. registration_row d = Inl e"
proof (induction ds arbitrary: acc)
  case Nil
  then show ?case by simp
next
  case (Cons d ds)
  then show ?case by (cases "registration_row d") auto
qed

lemma registration_loop_ok:
  "(\<exists>recs. registration_loop acc ds = Inr recs) \<longleftrightarrow>
     (\<forall>d \<in> set ds. \<exists>r. registration_row d = Inr r)"
  by (induction ds arbitrary: acc) (auto simp: andthen_eq_Inr)



lemma not_Inr_iff: "(\<exists>e. x = Inl e) \<longleftrightarrow> \<not> (\<exists>r. x = Inr r)"
  by (cases x) auto

lemma set_DictReader:
  "set (DictReader (hdr # rows)) = dict_row hdr ` {row \<in> set rows. row \<noteq> []}"
  by auto

lemma columns_present:
  "(\<forall>key \<in> set cols. dict_row hdr row key \<noteq> None) \<longleftrightarrow> set cols \<subseteq> set hdr"
  by (auto simp: dict_row_None)

lemma registration_fails_iff:
  "(\<exists>e. process_aircraft_registration_file (Contents (hdr # rows)) = Inl e) \<longleftrightarrow>
     (\<exists>row \<in> set rows. row \<noteq> [] \<and>
        (\<not> set MASTER_header \<subseteq> set hdr \<or>
         (\<exists>key \<in> set MASTER_stripped. key \<in> set (drop (length row) hdr))))"
proof -
  have "(\<exists>r. process_aircraft_registration_file (Contents (hdr # rows)) = Inr r) \<longleftrightarrow>
      (\<forall>d \<in> set (DictReader (hdr # rows)).
         (\<forall>key \<in> set MASTER_header. d key \<noteq> None) \<and>
         \<not> (\<exists>key \<in> set MASTER_stripped. d key = Some None))"
    by (simp only: process_aircraft_registration_file_def source.case registration_loop_ok registration_row_ok)
  also have "\<dots> \<longleftrightarrow>
      (\<forall>row \<in> set rows. row \<noteq> [] \<longrightarrow>
         (\<forall>key \<in> set MASTER_header. dict_row hdr row key \<noteq> None) \<and>
         \<not> (\<exists>key \<in> set MASTER_stripped. dict_row hdr row key = Some None))"
    unfolding set_DictReader by blast
  also have "\<dots> \<longleftrightarrow>
      (\<forall>row \<in> set rows. row \<noteq> [] \<longrightarrow>
         set MASTER_header \<subseteq> set hdr \<and>
         \<not> (\<exists>key \<in> set MASTER_stripped. key \<in> set (drop (length row) hdr)))"
    by (simp only: columns_present dict_row_Some_None)
  finally show ?thesis unfolding not_Inr_iff by blast
qed


lemma registration_row_error_kind:
  assumes "\<forall>key \<in> set MASTER_header. row key \<noteq> None" and "registration_row row = Inl e"
  shows "e = AttributeError"
proof (cases "\<exists>key \<in> set MASTER_stripped. row key = Some None")
  case True
  with assms(1) have "registration_row row = Inl AttributeError"
    by (rule registration_row_AttributeError)
  with assms(2) show ?thesis by simp
next
  case False
  with assms(1) have "\<exists>r. registration_row row = Inr r" by (simp add: registration_row_ok)
  with assms(2) show ?thesis by auto
qed







lemma registration_short_row:
  assumes "set MASTER_header \<subseteq> set hdr"
    and "\<exists>row \<in> set rows. row \<noteq> [] \<and>
           (\<exists>key \<in> set MASTER_stripped. key \<in> set (drop (length row) hdr))"
  shows "process_aircraft_registration_file (Contents (hdr # rows)) = Inl AttributeError"
proof -
  from assms(2) have "\<exists>e. process_aircraft_registration_file (Contents (hdr # rows)) = Inl e"
    unfolding registration_fails_iff by blast
  then obtain e where e: "registration_loop [] (DictReader (hdr # rows)) = Inl e"
    by (auto simp: process_aircraft_registration_file_def)
  then obtain d where d: "d \<in> set (DictReader (hdr # rows))" "registration_row d = Inl e"
    by (blast dest: registration_loop_Inl)
  from d(1) obtain row where row: "d = dict_row hdr row"
    unfolding set_DictReader by auto
  from assms(1) have "\<forall>key \<in> set MASTER_header. d key \<noteq> None"
    unfolding row columns_present .
  then have "e = AttributeError" using d(2) by (rule registration_row_error_kind)
  with e show ?thesis by (simp add: process_aircraft_registration_file_def)
qed

text \<open>
  C5, as the code has it, for a registration table that is read to its end and whose
  header has the eight columns the loader reads. When every non-blank data row reaches
  each of the seven columns whose values are stripped, the loader returns, without
  raising, exactly one record per non-blank data row, in the order of the rows, whatever
  the fields hold; blank rows give no record. When some non-blank data row is too short
  to reach one of these columns, the loader raises \<open>AttributeError\<close> and returns no
  record.
\<close>

theorem one_record_per_supplied_row:
  assumes "set MASTER_header \<subseteq> set header"
  shows "((\<forall>row \<in> set rows. row \<noteq> [] \<longrightarrow>
             (\<forall>key \<in> set MASTER_stripped. key \<notin> set (drop (length row) header))) \<longrightarrow>
          (\<exists>regs. process_aircraft_registration_file (Contents (header # rows)) = Inr regs \<and>
             length regs = length (filter (\<lambda>row. row \<noteq> []) rows) \<and>
             (\<forall>i < length regs.
                registration_row (dict_row header (filter (\<lambda>row. row \<noteq> []) rows ! i)) =
                  Inr (regs ! i)))) \<and>
         ((\<exists>row \<in> set rows. row \<noteq> [] \<and>
             (\<exists>key \<in> set MASTER_stripped. key \<in> set (drop (length row) header))) \<longrightarrow>
          process_aircraft_registration_file (Contents (header # rows)) = Inl AttributeError)"
proof (intro conjI impI)
  assume ok: "\<forall>row \<in> set rows. row \<noteq> [] \<longrightarrow>
             (\<forall>key \<in> set MASTER_stripped. key \<notin> set (drop (length row) header))"
  with assms have "\<not> (\<exists>e. process_aircraft_registration_file (Contents (header # rows)) = Inl e)"
    unfolding registration_fails_iff by blast
  then obtain regs where regs: "process_aircraft_registration_file (Contents (header # rows)) = Inr regs"
    unfolding not_Inr_iff by blast
  then have all2: "list_all2 (\<lambda>d r. registration_row d = Inr r)
      (map (dict_row header) (filter (\<lambda>row. row \<noteq> []) rows)) regs"
    by (simp add: process_registration_Inr)
  then have len: "length regs = length (filter (\<lambda>row. row \<noteq> []) rows)"
    by (auto dest: list_all2_lengthD)
  have "\<forall>i < length regs.
      registration_row (dict_row header (filter (\<lambda>row. row \<noteq> []) rows ! i)) = Inr (regs ! i)"
  proof (intro allI impI)
    fix i assume i: "i < length regs"
    with all2 have "registration_row (map (dict_row header) (filter (\<lambda>row. row \<noteq> []) rows) ! i) =
        Inr (regs ! i)"
      by (rule list_all2_nthD2)
    with i len show "registration_row (dict_row header (filter (\<lambda>row. row \<noteq> []) rows ! i)) =
        Inr (regs ! i)"
      by simp
  qed
  with regs len show "\<exists>regs. process_aircraft_registration_file (Contents (header # rows)) = Inr regs \<and>
             length regs = length (filter (\<lambda>row. row \<noteq> []) rows) \<and>
             (\<forall>i < length regs.
                registration_row (dict_row header (filter (\<lambda>row. row \<noteq> []) rows ! i)) =
                  Inr (regs ! i))"
    by blast
next
  assume "\<exists>row \<in> set rows. row \<noteq> [] \<and>
             (\<exists>key \<in> set MASTER_stripped. key \<in> set (drop (length row) header))"
  with assms show "process_aircraft_registration_file (Contents (header # rows)) = Inl AttributeError"
    by (rule registration_short_row)
qed

theorem one_record_per_supplied_row_witness:
  "set MASTER_header \<subseteq> set MASTER_wide_header \<and>
   length MASTER_blank_rows = 3 \<and>
   length (filter (\<lambda>row. row \<noteq> []) MASTER_blank_rows) = 2 \<and>
   process_aircraft_registration_file (Contents (MASTER_wide_header # MASTER_blank_rows)) =
     Inr [Blank, Malformed] \<and>
   process_aircraft_registration_file (Contents (MASTER_wide_header # MASTER_short_rows)) =
     Inl AttributeError"
proof -
  have h: "set MASTER_header \<subseteq> set MASTER_wide_header"
    by (auto simp: MASTER_wide_header_def)
  have ok: "\<forall>row \<in> set MASTER_blank_rows. row \<noteq> [] \<longrightarrow>
      (\<forall>key \<in> set MASTER_stripped. key \<notin> set (drop (length row) MASTER_wide_header))"
    by (simp add: MASTER_blank_rows_def MASTER_wide_header_def MASTER_header_def
          MASTER_stripped_def str_of_def)
  have short: "\<exists>row \<in> set MASTER_short_rows. row \<noteq> [] \<and>
      (\<exists>key \<in> set MASTER_stripped. key \<in> set (drop (length row) MASTER_wide_header))"
    by (simp add: MASTER_short_rows_def MASTER_wide_header_def MASTER_header_def
          MASTER_stripped_def str_of_def)
  have e: "process_aircraft_registration_file (Contents (MASTER_wide_header # MASTER_blank_rows)) =
     Inr [Blank, Malformed]"
    by (simp add: MASTER_blank_rows_def MASTER_wide_header_def MASTER_header_def Blank_def
          Malformed_def eval_defs)
  have l: "length MASTER_blank_rows = 3" "length (filter (\<lambda>row. row \<noteq> []) MASTER_blank_rows) = 2"
    by (simp_all add: MASTER_blank_rows_def)
  from one_record_per_supplied_row [OF h, of MASTER_blank_rows]
       one_record_per_supplied_row [OF h, of MASTER_short_rows] ok short h e l
  show ?thesis by blast
qed

text \<open>
  A data row too short to reach a stripped column gives no record: the reader fills the
  missing columns with \<open>None\<close> and \<open>None.strip()\<close> raises.
\<close>

theorem short_row_counterexample:
  "process_aircraft_registration_file (Contents [MASTER_header, [str_of ''N12345'']]) =
     Inl AttributeError"
  by (simp add: MASTER_header_def eval_defs)










end
